theory Spec2Isabelle
  imports Complex_Main "HOL-Library.Sublist"
begin

section \<open>JavaScript values and the platform functions the component calls\<close>

text \<open>
  The component is a Lightning Web Component (\<^verbatim>\<open>rollupTileGrid.js\<close>). Its properties
  and the fields of the Apex response are dynamically typed, so the fields whose type the
  code tests at run time are modelled as \<open>jsval\<close>. Numbers are the finite ones, taken as
  exact rationals (every finite double is one); \<open>NaN\<close> appears only as the failure of a
  parse (\<open>None\<close>), and the infinities and the negative zero are not represented.
  A string is a list of 8-bit characters; case mapping acts on the ASCII letters.
  A property that is \<^verbatim>\<open>undefined\<close> or \<^verbatim>\<open>null\<close> and is only ever tested for
  truthiness is an \<open>option\<close> with \<open>None\<close> for both.
\<close>

datatype jsval = JUndefined | JNull | JBool bool | JNum rat | JStr string

fun truthy :: "jsval \<Rightarrow> bool" where
  "truthy JUndefined = False"
| "truthy JNull = False"
| "truthy (JBool b) = b"
| "truthy (JNum r) = (r \<noteq> 0)"
| "truthy (JStr s) = (s \<noteq> [])"

text \<open>Truthiness of an optional string: \<^verbatim>\<open>undefined\<close>, \<^verbatim>\<open>null\<close> and \<^verbatim>\<open>''\<close> are falsy.\<close>

fun truthyStr :: "string option \<Rightarrow> bool" where
  "truthyStr None = False"
| "truthyStr (Some s) = (s \<noteq> [])"

subsection \<open>Strings\<close>

text \<open>\<^verbatim>\<open>String.prototype.trim\<close>: the white space and line terminators among the 8-bit characters.\<close>

definition isWhiteSpace :: "char \<Rightarrow> bool" where
  "isWhiteSpace c = ((of_char c :: nat) \<in> {9, 10, 11, 12, 13, 32, 160})"

definition trimStart :: "string \<Rightarrow> string" where
  "trimStart s = dropWhile isWhiteSpace s"

definition trim :: "string \<Rightarrow> string" where
  "trim s = rev (dropWhile isWhiteSpace (rev (dropWhile isWhiteSpace s)))"

definition toUpperChar :: "char \<Rightarrow> char" where
  "toUpperChar c =
     (let n = (of_char c :: nat) in if 97 \<le> n \<and> n \<le> 122 then char_of (n - 32) else c)"

definition toLowerChar :: "char \<Rightarrow> char" where
  "toLowerChar c =
     (let n = (of_char c :: nat) in if 65 \<le> n \<and> n \<le> 90 then char_of (n + 32) else c)"

definition toUpperCase :: "string \<Rightarrow> string" where
  "toUpperCase s = map toUpperChar s"

definition toLowerCase :: "string \<Rightarrow> string" where
  "toLowerCase s = map toLowerChar s"

definition isLower :: "char \<Rightarrow> bool" where
  "isLower c = (97 \<le> (of_char c :: nat) \<and> (of_char c :: nat) \<le> 122)"

definition isUpper :: "char \<Rightarrow> bool" where
  "isUpper c = (65 \<le> (of_char c :: nat) \<and> (of_char c :: nat) \<le> 90)"

definition isDigit :: "char \<Rightarrow> bool" where
  "isDigit c = (48 \<le> (of_char c :: nat) \<and> (of_char c :: nat) \<le> 57)"

definition digitVal :: "char \<Rightarrow> int" where
  "digitVal c = (of_char c :: int) - 48"

definition digitChar :: "int \<Rightarrow> char" where
  "digitChar d = char_of (48 + d)"

text \<open>
  \<^verbatim>\<open>Number.prototype.toString\<close> on a whole number that is not negative (template
  literals, \<^verbatim>\<open>index.toString()\<close>, and the digits \<^verbatim>\<open>Intl.NumberFormat\<close> prints).
\<close>

function intToString :: "int \<Rightarrow> string" where
  "intToString n =
     (if n < 10 then [digitChar n] else intToString (n div 10) @ [digitChar (n mod 10)])"
  by pat_completeness auto
termination
  by (relation "measure nat") auto

declare intToString.simps [simp del]

definition natToString :: "nat \<Rightarrow> string" where
  "natToString n = intToString (int n)"

text \<open>\<^verbatim>\<open>String.prototype.includes\<close>.\<close>

definition strIncludes :: "string \<Rightarrow> string \<Rightarrow> bool" where
  "strIncludes s sub = sublist sub s"

text \<open>Two strings that differ only in the case of their ASCII letters.\<close>

definition sameUpToCase :: "string \<Rightarrow> string \<Rightarrow> bool" where
  "sameUpToCase x y = list_all2 (\<lambda>c d. toUpperChar c = toUpperChar d) x y"

subsection \<open>Numbers\<close>

text \<open>
  \<^verbatim>\<open>parseInt(v, 10)\<close>, \<^verbatim>\<open>parseFloat(v)\<close> and \<^verbatim>\<open>Number(v)\<close>. \<open>None\<close> is \<open>NaN\<close>.
  On a string they read a decimal literal (sign, digits, fraction, exponent); the literal
  \<^verbatim>\<open>Infinity\<close> and the hexadecimal, octal and binary literals of \<^verbatim>\<open>Number\<close> are read as
  failures. On a number, \<^verbatim>\<open>parseInt\<close> goes through the number's decimal string, which for
  magnitudes from \<open>10\<^sup>-\<^sup>6\<close> below \<open>10\<^sup>2\<^sup>1\<close> is the truncation modelled here.
\<close>

definition parseDigits :: "string \<Rightarrow> int" where
  "parseDigits ds = foldl (\<lambda>a c. 10 * a + digitVal c) 0 ds"

definition splitSign :: "string \<Rightarrow> bool \<times> string" where
  "splitSign t =
     (case t of
        [] \<Rightarrow> (False, [])
      | c # r \<Rightarrow> if c = CHR ''-'' then (True, r) else if c = CHR ''+'' then (False, r) else (False, t))"

definition parseIntStr :: "string \<Rightarrow> int option" where
  "parseIntStr s =
     (let (neg, u) = splitSign (trimStart s);
          ds = takeWhile isDigit u
      in if ds = [] then None
         else Some (if neg then - parseDigits ds else parseDigits ds))"

definition truncRat :: "rat \<Rightarrow> int" where
  "truncRat r = (if 0 \<le> r then \<lfloor>r\<rfloor> else \<lceil>r\<rceil>)"

fun parseInt :: "jsval \<Rightarrow> int option" where
  "parseInt (JStr s) = parseIntStr s"
| "parseInt (JNum r) = Some (truncRat r)"
| "parseInt _ = None"

text \<open>The exponent part of a decimal literal and the rest of the input after it.\<close>

definition scanExponent :: "string \<Rightarrow> int \<times> string" where
  "scanExponent r =
     (case r of
        [] \<Rightarrow> (0, r)
      | c # r1 \<Rightarrow>
          if c = CHR ''e'' \<or> c = CHR ''E'' then
            (let (neg, r2) = splitSign r1;
                 ds = takeWhile isDigit r2
             in if ds = [] then (0, r)
                else ((if neg then - parseDigits ds else parseDigits ds),
                      dropWhile isDigit r2))
          else (0, r))"

text \<open>The longest decimal literal at the start of a string, and the rest.\<close>

definition scanDecimal :: "string \<Rightarrow> (rat \<times> string) option" where
  "scanDecimal t =
     (let (neg, u) = splitSign t;
          ip = takeWhile isDigit u;
          r1 = dropWhile isDigit u;
          (fp, r2) = (case r1 of
                        [] \<Rightarrow> ([], r1)
                      | c # r \<Rightarrow> if c = CHR ''.'' \<and> (ip \<noteq> [] \<or> takeWhile isDigit r \<noteq> [])
                                 then (takeWhile isDigit r, dropWhile isDigit r)
                                 else ([], r1))
      in if ip = [] \<and> fp = [] then None
         else
           (let (e, r3) = scanExponent r2;
                mant = (of_int (parseDigits (ip @ fp)) :: rat) / 10 ^ length fp;
                x = mant * 10 powi e
            in Some (if neg then - x else x, r3)))"

definition parseFloatStr :: "string \<Rightarrow> rat option" where
  "parseFloatStr s = map_option fst (scanDecimal (trimStart s))"

fun parseFloat :: "jsval \<Rightarrow> rat option" where
  "parseFloat (JStr s) = parseFloatStr s"
| "parseFloat (JNum r) = Some r"
| "parseFloat _ = None"

definition toNumberStr :: "string \<Rightarrow> rat option" where
  "toNumberStr s =
     (let t = trim s in
      if t = [] then Some 0
      else (case scanDecimal t of
              Some (r, rest) \<Rightarrow> if rest = [] then Some r else None
            | None \<Rightarrow> None))"

fun Number :: "jsval \<Rightarrow> rat option" where
  "Number JUndefined = None"
| "Number JNull = Some 0"
| "Number (JBool b) = Some (if b then 1 else 0)"
| "Number (JNum r) = Some r"
| "Number (JStr s) = toNumberStr s"

subsection \<open>\<^verbatim>\<open>Intl.NumberFormat\<close> in the locale \<^verbatim>\<open>en-US\<close>\<close>

text \<open>
  \<^verbatim>\<open>LOCALE\<close> comes from the platform (\<^verbatim>\<open>@salesforce/i18n/locale\<close>); the model fixes it to
  \<^verbatim>\<open>en-US\<close>: a comma between groups of three integer digits, a full stop before the
  fraction, \<^verbatim>\<open>-\<close> before a negative number. The number is rounded to
  \<^verbatim>\<open>maximumFractionDigits\<close> digits, ties away from zero, and the zeros at the end of the
  fraction are dropped down to \<^verbatim>\<open>minimumFractionDigits\<close> digits.
\<close>

fun groupRev :: "string \<Rightarrow> string" where
  "groupRev (a # b # c # d # rest) = a # b # c # CHR '','' # groupRev (d # rest)"
| "groupRev xs = xs"

definition groupThousands :: "string \<Rightarrow> string" where
  "groupThousands s = rev (groupRev (rev s))"

definition roundHalfExpand :: "rat \<Rightarrow> int" where
  "roundHalfExpand q = \<lfloor>q + 1 / 2\<rfloor>"

definition padLeftZeros :: "nat \<Rightarrow> string \<Rightarrow> string" where
  "padLeftZeros n s = replicate (n - length s) (CHR ''0'') @ s"

definition stripTrailingZeros :: "nat \<Rightarrow> string \<Rightarrow> string" where
  "stripTrailingZeros minFrac s =
     take minFrac s @ rev (dropWhile (\<lambda>c. c = CHR ''0'') (rev (drop minFrac s)))"

definition NumberFormat_format :: "nat \<Rightarrow> nat \<Rightarrow> rat \<Rightarrow> string" where
  "NumberFormat_format minFrac maxFrac x =
     (let n = roundHalfExpand (\<bar>x\<bar> * 10 ^ maxFrac);
          ip = n div 10 ^ maxFrac;
          fp = n mod 10 ^ maxFrac;
          frac = (if maxFrac = 0 then []
                  else stripTrailingZeros minFrac (padLeftZeros maxFrac (intToString fp)))
      in (if x < 0 then ''-'' else []) @ groupThousands (intToString ip)
         @ (if frac = [] then [] else CHR ''.'' # frac))"

text \<open>
  The constructor \<^verbatim>\<open>new Intl.NumberFormat(LOCALE, {minimumFractionDigits: 0,
  maximumFractionDigits: d})\<close> throws a \<^verbatim>\<open>RangeError\<close> when \<open>d\<close> is \<open>NaN\<close> or outside
  \<open>0..100\<close> (the bound of the current ECMA-402; older engines stop at 20). \<open>None\<close> is the throw.
\<close>

definition NumberFormat_maxFraction :: "int option \<Rightarrow> nat option" where
  "NumberFormat_maxFraction d =
     (case d of
        None \<Rightarrow> None
      | Some k \<Rightarrow> if 0 \<le> k \<and> k \<le> 100 then Some (nat k) else None)"

text \<open>
  The string a template literal makes of a value. For a number it is given for the
  finite decimals of up to 20 fraction digits, without grouping.
\<close>

definition numberToString :: "rat \<Rightarrow> string" where
  "numberToString x =
     (let n = roundHalfExpand (\<bar>x\<bar> * 10 ^ 20);
          ip = n div 10 ^ 20;
          fp = n mod 10 ^ 20;
          frac = stripTrailingZeros 0 (padLeftZeros 20 (intToString fp))
      in (if x < 0 then ''-'' else []) @ intToString ip
         @ (if frac = [] then [] else CHR ''.'' # frac))"

fun toStringJs :: "jsval \<Rightarrow> string" where
  "toStringJs JUndefined = ''undefined''"
| "toStringJs JNull = ''null''"
| "toStringJs (JBool b) = (if b then ''true'' else ''false'')"
| "toStringJs (JNum r) = numberToString r"
| "toStringJs (JStr s) = s"


section \<open>AggregationTypeCatalog\<close>

definition VALID_AGGREGATION_TYPES :: "string list" where
  "VALID_AGGREGATION_TYPES =
     [''SUM'', ''AVERAGE'', ''MAX'', ''MIN'', ''COUNT'', ''COUNT_DISTINCT'',
      ''CONCATENATE'', ''CONCATENATE_DISTINCT'', ''FIRST'', ''LAST'']"

definition NUMERIC_TYPES :: "string list" where
  "NUMERIC_TYPES = [''SUM'', ''AVERAGE'', ''MAX'', ''MIN'', ''COUNT'', ''COUNT_DISTINCT'']"

definition NUMERIC_FIELD_AGG_TYPES :: "string list" where
  "NUMERIC_FIELD_AGG_TYPES = [''SUM'', ''AVERAGE'', ''MAX'', ''MIN'']"

definition TEXT_FIELD_AGG_TYPES :: "string list" where
  "TEXT_FIELD_AGG_TYPES = [''CONCATENATE'', ''CONCATENATE_DISTINCT'']"

text \<open>
  \<^verbatim>\<open>normalizeAggTypeValue(raw)\<close>: \<open>None\<close> is \<^verbatim>\<open>null\<close> (the argument, when absent, and
  the result, when the trimmed string is empty).
\<close>

definition normalizeAggTypeValue :: "string option \<Rightarrow> string option" where
  "normalizeAggTypeValue raw =
     (case raw of
        None \<Rightarrow> None
      | Some s \<Rightarrow>
          (let upper = toUpperCase (trim s) in
           if upper = [] then None
           else Some (if upper = ''AVG'' then ''AVERAGE'' else upper)))"

definition FIELD_CATEGORY_NUMERIC :: string where "FIELD_CATEGORY_NUMERIC = ''numeric''"
definition FIELD_CATEGORY_TEXT :: string where "FIELD_CATEGORY_TEXT = ''text''"
definition FIELD_CATEGORY_DATE :: string where "FIELD_CATEGORY_DATE = ''date''"
definition FIELD_CATEGORY_UNKNOWN :: string where "FIELD_CATEGORY_UNKNOWN = ''unknown''"

definition NUMERIC_FIELD_ALLOWED_AGG_TYPES :: "string list" where
  "NUMERIC_FIELD_ALLOWED_AGG_TYPES =
     [''SUM'', ''AVERAGE'', ''MAX'', ''MIN'', ''COUNT'', ''COUNT_DISTINCT'', ''FIRST'', ''LAST'']"

definition TEXT_FIELD_ALLOWED_AGG_TYPES :: "string list" where
  "TEXT_FIELD_ALLOWED_AGG_TYPES =
     [''CONCATENATE'', ''CONCATENATE_DISTINCT'', ''COUNT'', ''COUNT_DISTINCT'', ''FIRST'', ''LAST'']"

definition DATE_FIELD_ALLOWED_AGG_TYPES :: "string list" where
  "DATE_FIELD_ALLOWED_AGG_TYPES = [''MAX'', ''MIN'', ''COUNT'', ''COUNT_DISTINCT'']"

definition LOAD_TIMEOUT_MS :: nat where "LOAD_TIMEOUT_MS = 15000"

definition MAX_ROWS :: int where "MAX_ROWS = 5"
definition MAX_COLUMNS :: int where "MAX_COLUMNS = 5"
definition MAX_TILES :: int where "MAX_TILES = MAX_ROWS * MAX_COLUMNS"

definition BASE_AGGREGATION_OPTIONS :: "(string \<times> string) list" where
  "BASE_AGGREGATION_OPTIONS =
     [(''Average'', ''AVERAGE''),
      (''Concatenate'', ''CONCATENATE''),
      (''Concatenate Distinct'', ''CONCATENATE_DISTINCT''),
      (''Count'', ''COUNT''),
      (''Count Distinct'', ''COUNT_DISTINCT''),
      (''Max'', ''MAX''),
      (''Min'', ''MIN''),
      (''Sum'', ''SUM'')]"

definition inferFieldCategoryFromAggregationType :: "string option \<Rightarrow> string" where
  "inferFieldCategoryFromAggregationType rawAggType =
     (case normalizeAggTypeValue rawAggType of
        None \<Rightarrow> FIELD_CATEGORY_UNKNOWN
      | Some canonical \<Rightarrow>
          if canonical \<in> set NUMERIC_FIELD_AGG_TYPES then FIELD_CATEGORY_NUMERIC
          else if canonical \<in> set TEXT_FIELD_AGG_TYPES then FIELD_CATEGORY_TEXT
          else FIELD_CATEGORY_UNKNOWN)"

definition getAllowedAggregationsForCategory :: "string \<Rightarrow> string list option" where
  "getAllowedAggregationsForCategory category =
     (if category = FIELD_CATEGORY_NUMERIC then Some NUMERIC_FIELD_ALLOWED_AGG_TYPES
      else if category = FIELD_CATEGORY_TEXT then Some TEXT_FIELD_ALLOWED_AGG_TYPES
      else if category = FIELD_CATEGORY_DATE then Some DATE_FIELD_ALLOWED_AGG_TYPES
      else None)"

section \<open>TileViewModel\<close>

text \<open>One entry of \<^verbatim>\<open>aggregationMenuOptions\<close>.\<close>

record menu_option =
  optLabel :: string
  optValue :: string
  isSelected :: bool
  itemClass :: string
  ariaChecked :: string

text \<open>
  A tile object: configuration, runtime state and derived view fields, in the order of
  \<^verbatim>\<open>buildInitialTileConfig\<close>. The field \<^verbatim>\<open>value\<close> is written \<open>value'\<close>.
\<close>

record tile =
  index :: nat
  label :: string
  aggregateFieldApiName :: "string option"
  initialAggregationType :: "string option"
  filterCondition :: "string option"
  decimalPlaces :: jsval
  fieldCategory :: string
  aggregateType :: "string option"
  isLoading :: bool
  error :: "string option"
  value' :: jsval
  recordCount :: jsval
  isCurrency :: bool
  isPercent :: bool
  isDate :: bool
  fieldLabel :: jsval
  isAggregationMenuOpen :: bool
  displayValue :: jsval
  hasRecordCount :: bool
  summaryRecordLabel :: "string option"
  summaryLabel :: "string option"
  aggregationMenuOptions :: "menu_option list"
  gearMenuClass :: string

definition resolveFieldCategory :: "tile \<Rightarrow> string" where
  "resolveFieldCategory t =
     (let category = (if fieldCategory t \<noteq> [] then fieldCategory t else FIELD_CATEGORY_UNKNOWN)
      in if isDate t then FIELD_CATEGORY_DATE
         else if isCurrency t \<or> isPercent t then FIELD_CATEGORY_NUMERIC
         else category)"

section \<open>The grid instance\<close>

text \<open>
  The component instance \<^verbatim>\<open>this\<close>: the design-time properties, the tile array and the
  private fields. The 25 numbered property groups \<^verbatim>\<open>tile1Label\<close> \<open>\<dots>\<close>
  \<^verbatim>\<open>tile25FilterCondition\<close>, read by the computed name \<^verbatim>\<open>this[`tile${suffix}Label`]\<close>,
  are functions of the number. The property \<^verbatim>\<open>decimalPlaces\<close> of the instance is
  \<open>gridDecimalPlaces\<close>.
\<close>

record grid =
  recordId :: "string option"
  rows :: jsval
  columns :: jsval
  childObjectApiName :: "string option"
  relationshipFieldApiName :: "string option"
  grandchildObjectApiName :: "string option"
  grandchildRelationshipFieldApiName :: "string option"
  gridDecimalPlaces :: jsval
  tileNLabel :: "nat \<Rightarrow> string option"
  tileNAggregateFieldApiName :: "nat \<Rightarrow> string option"
  tileNInitialAggregationType :: "nat \<Rightarrow> string option"
  tileNFilterCondition :: "nat \<Rightarrow> string option"
  tiles :: "tile list"
  initialized :: bool
  tileTimeouts :: "nat \<Rightarrow> nat option"
  timerSeq :: nat
  instanceId :: "string option"

text \<open>\<^verbatim>\<open>x && x.toString().trim()\<close> as a condition.\<close>

fun nonBlank :: "string option \<Rightarrow> bool" where
  "nonBlank None = False"
| "nonBlank (Some s) = (s \<noteq> [] \<and> trim s \<noteq> [])"

definition isGrandchildMode :: "grid \<Rightarrow> bool" where
  "isGrandchildMode g =
     (nonBlank (grandchildObjectApiName g) \<and> nonBlank (grandchildRelationshipFieldApiName g))"

definition aggregateObjectApiNameForLabel :: "grid \<Rightarrow> string option" where
  "aggregateObjectApiNameForLabel g =
     (if isGrandchildMode g \<and> truthyStr (grandchildObjectApiName g)
      then grandchildObjectApiName g
      else childObjectApiName g)"

subsection \<open>The object label\<close>

text \<open>\<^verbatim>\<open>name.replace(/__c$/i, '')\<close>, for a lower-case suffix.\<close>

definition stripSuffixCI :: "string \<Rightarrow> string \<Rightarrow> string" where
  "stripSuffixCI suf s =
     (if length suf \<le> length s \<and> toLowerCase (drop (length s - length suf) s) = suf
      then take (length s - length suf) s
      else s)"

text \<open>\<^verbatim>\<open>String.prototype.split\<close> with a non-empty separator string.\<close>

function splitOn :: "string \<Rightarrow> string \<Rightarrow> string \<Rightarrow> string list" where
  "splitOn sep acc [] = [acc]"
| "splitOn sep acc (c # cs) =
     (if sep \<noteq> [] \<and> prefix sep (c # cs)
      then acc # splitOn sep [] (drop (length sep) (c # cs))
      else splitOn sep (acc @ [c]) cs)"
  by pat_completeness auto
termination
  by (relation "measure (\<lambda>(sep, acc, s). length s)") auto

definition split :: "string \<Rightarrow> string \<Rightarrow> string list" where
  "split sep s = splitOn sep [] s"

fun joinWith :: "string \<Rightarrow> string list \<Rightarrow> string" where
  "joinWith sep [] = []"
| "joinWith sep [x] = x"
| "joinWith sep (x # y # ys) = x @ sep @ joinWith sep (y # ys)"

text \<open>\<^verbatim>\<open>replace(/([a-z])([A-Z])/g, '$1 $2')\<close>.\<close>

fun spaceCamel :: "string \<Rightarrow> string" where
  "spaceCamel (a # b # rest) =
     (if isLower a \<and> isUpper b then a # CHR '' '' # b # spaceCamel rest
      else a # spaceCamel (b # rest))"
| "spaceCamel xs = xs"

definition capitalize :: "string \<Rightarrow> string" where
  "capitalize w = (case w of [] \<Rightarrow> [] | c # cs \<Rightarrow> toUpperChar c # toLowerCase cs)"

definition childObjectLabelSingular :: "grid \<Rightarrow> string" where
  "childObjectLabelSingular g =
     (case aggregateObjectApiNameForLabel g of
        None \<Rightarrow> ''record''
      | Some apiName \<Rightarrow>
          if apiName = [] then ''record''
          else
            (let name0 = stripSuffixCI ''__x'' (stripSuffixCI ''__c'' (trim apiName));
                 parts = split ''__'' name0;
                 name1 = (if length parts > 1 then parts ! 1 else name0);
                 name2 = trim (spaceCamel (map (\<lambda>c. if c = CHR ''_'' then CHR '' '' else c) name1))
             in if name2 = [] then ''record''
                else
                  (let name3 = trim (joinWith '' '' (map capitalize (split '' '' name2)))
                   in if name3 = [] then ''record'' else name3)))"

subsection \<open>\<^verbatim>\<open>normalizeAggregationType\<close> and \<^verbatim>\<open>recomputeTileDerivedFields\<close>\<close>

definition normalizeAggregationType :: "string option \<Rightarrow> string" where
  "normalizeAggregationType raw =
     (case normalizeAggTypeValue raw of
        None \<Rightarrow> ''SUM''
      | Some canonical \<Rightarrow>
          if canonical \<in> set VALID_AGGREGATION_TYPES then canonical else ''SUM'')"

text \<open>\<^verbatim>\<open>a || d\<close> for an optional string \<open>a\<close> and a string \<open>d\<close>.\<close>

definition orElse :: "string option \<Rightarrow> string \<Rightarrow> string" where
  "orElse a d = (case a of None \<Rightarrow> d | Some s \<Rightarrow> if s \<noteq> [] then s else d)"

definition currentAggregateType :: "tile \<Rightarrow> string" where
  "currentAggregateType t =
     (case normalizeAggTypeValue
             (Some (orElse (aggregateType t) (orElse (initialAggregationType t) ''SUM''))) of
        None \<Rightarrow> ''SUM''
      | Some a \<Rightarrow> a)"

definition isDateAggregate :: "tile \<Rightarrow> string \<Rightarrow> bool" where
  "isDateAggregate t aggType = (isDate t \<and> (aggType = ''MIN'' \<or> aggType = ''MAX''))"

definition isNumericAggregate :: "tile \<Rightarrow> string \<Rightarrow> bool" where
  "isNumericAggregate t aggType = (aggType \<in> set NUMERIC_TYPES \<and> \<not> isDateAggregate t aggType)"

definition isEmptyValue :: "jsval \<Rightarrow> bool" where
  "isEmptyValue v = (v = JNull \<or> v = JUndefined \<or> v = JStr [])"

text \<open>The branch of \<^verbatim>\<open>displayValue\<close> for a numeric aggregate.\<close>

definition numericDisplayValue :: "tile \<Rightarrow> jsval" where
  "numericDisplayValue t =
     (case parseFloat (value' t) of
        None \<Rightarrow> value' t
      | Some num \<Rightarrow>
          (let fractionDigits =
                 (if decimalPlaces t \<noteq> JUndefined \<and> decimalPlaces t \<noteq> JNull
                  then parseInt (decimalPlaces t) else Some 2)
           in case NumberFormat_maxFraction fractionDigits of
                None \<Rightarrow> value' t
              | Some d \<Rightarrow>
                  (let formatted = NumberFormat_format 0 d num
                   in if isCurrency t then JStr (''$'' @ formatted)
                      else if isPercent t then JStr (formatted @ ''%'')
                      else JStr formatted)))"

definition computeDisplayValue :: "tile \<Rightarrow> string \<Rightarrow> jsval" where
  "computeDisplayValue t aggType =
     (if isEmptyValue (value' t) then JStr ''-''
      else if isNumericAggregate t aggType then numericDisplayValue t
      else value' t)"

definition computeSummaryRecordLabel :: "grid \<Rightarrow> tile \<Rightarrow> string option" where
  "computeSummaryRecordLabel g t =
     (if recordCount t \<noteq> JUndefined \<and> recordCount t \<noteq> JNull then
        (let objectLabel = orElse (Some (childObjectLabelSingular g)) ''record''
         in case Number (recordCount t) of
              None \<Rightarrow> Some (toStringJs (recordCount t) @ '' '' @ objectLabel @ '' records'')
            | Some count \<Rightarrow>
                (let formattedCount = NumberFormat_format 0 3 count;
                     recordWord = (if count = 1 then ''record'' else ''records'')
                 in Some (formattedCount @ '' '' @ objectLabel @ '' '' @ recordWord)))
      else None)"

definition fieldLabelForSummary :: "tile \<Rightarrow> string" where
  "fieldLabelForSummary t =
     (let serverLabel = (case fieldLabel t of JStr s \<Rightarrow> trim s | _ \<Rightarrow> [])
      in if serverLabel \<noteq> [] then serverLabel
         else
           (let explicitLabel = trim (label t)
            in if explicitLabel \<noteq> [] then explicitLabel
               else
                 (let apiName = (case aggregateFieldApiName t of Some s \<Rightarrow> trim s | None \<Rightarrow> [])
                  in if apiName \<noteq> [] then apiName else ''this field'')))"

definition friendlyAggregationLabel :: "string \<Rightarrow> string" where
  "friendlyAggregationLabel aggType =
     (if aggType = ''AVERAGE'' \<or> aggType = ''AVG'' then ''Average''
      else if aggType = ''COUNT'' then ''Count''
      else if aggType = ''COUNT_DISTINCT'' then ''Distinct count''
      else if aggType = ''MAX'' then ''Maximum''
      else if aggType = ''MIN'' then ''Minimum''
      else if aggType = ''FIRST'' then ''First value''
      else if aggType = ''LAST'' then ''Last value''
      else if aggType = ''CONCATENATE'' then ''Combined values''
      else if aggType = ''CONCATENATE_DISTINCT'' then ''Unique combined values''
      else ''Sum'')"

definition computeSummaryLabel :: "string \<Rightarrow> string \<Rightarrow> string option \<Rightarrow> string" where
  "computeSummaryLabel friendly fieldLabelFS summaryRL =
     (case summaryRL of
        Some srl \<Rightarrow>
          if srl \<noteq> [] then friendly @ '' of '' @ [CHR 39] @ fieldLabelFS @ [CHR 39] @ '' across '' @ srl
          else friendly @ '' of '' @ [CHR 39] @ fieldLabelFS @ [CHR 39]
      | None \<Rightarrow> friendly @ '' of '' @ [CHR 39] @ fieldLabelFS @ [CHR 39])"

definition makeMenuOption :: "string \<Rightarrow> string \<times> string \<Rightarrow> menu_option" where
  "makeMenuOption aggType opt =
     (let sel = (snd opt = aggType)
      in \<lparr> optLabel = fst opt,
           optValue = snd opt,
           isSelected = sel,
           itemClass = ''slds-dropdown__item'' @ (if sel then '' slds-is-selected'' else []),
           ariaChecked = (if sel then ''true'' else ''false'') \<rparr>)"

definition computeAggregationMenuOptions :: "string list option \<Rightarrow> string \<Rightarrow> menu_option list" where
  "computeAggregationMenuOptions allowedSet aggType =
     map (makeMenuOption aggType)
       (filter (\<lambda>opt. case allowedSet of None \<Rightarrow> True | Some allowed \<Rightarrow> snd opt \<in> set allowed)
          BASE_AGGREGATION_OPTIONS)"

definition computeGearMenuClass :: "tile \<Rightarrow> string" where
  "computeGearMenuClass t =
     ''st-rollup-gear-menu slds-dropdown-trigger slds-dropdown-trigger_click''
       @ (if isAggregationMenuOpen t then '' slds-is-open'' else [])"

definition recomputeTileDerivedFields :: "grid \<Rightarrow> tile \<Rightarrow> tile" where
  "recomputeTileDerivedFields g t =
     (let aggType = currentAggregateType t;
          category = resolveFieldCategory t;
          allowedSet = getAllowedAggregationsForCategory category;
          dv = computeDisplayValue t aggType;
          srl = computeSummaryRecordLabel g t;
          sl = computeSummaryLabel (friendlyAggregationLabel aggType) (fieldLabelForSummary t) srl
      in t\<lparr> aggregateType := Some aggType,
            fieldCategory := category,
            displayValue := dv,
            hasRecordCount := (recordCount t \<noteq> JUndefined \<and> recordCount t \<noteq> JNull),
            summaryRecordLabel := srl,
            summaryLabel := Some sl,
            aggregationMenuOptions := computeAggregationMenuOptions allowedSet aggType,
            gearMenuClass := computeGearMenuClass t \<rparr>)"


section \<open>GridLayoutResolver and tile initialization\<close>

definition normalizeDimension :: "jsval \<Rightarrow> int \<Rightarrow> int \<Rightarrow> int" where
  "normalizeDimension v mn mx =
     (case parseInt v of
        None \<Rightarrow> mn
      | Some num \<Rightarrow> if num < mn then mn else if num > mx then mx else num)"

definition normalizedRows :: "grid \<Rightarrow> int" where
  "normalizedRows g = normalizeDimension (rows g) 1 MAX_ROWS"

definition normalizedColumns :: "grid \<Rightarrow> int" where
  "normalizedColumns g = normalizeDimension (columns g) 1 MAX_COLUMNS"

definition maxSlots :: "grid \<Rightarrow> int" where
  "maxSlots g = min (normalizedRows g * normalizedColumns g) MAX_TILES"

definition buildInitialTileConfig :: "grid \<Rightarrow> nat \<Rightarrow> tile" where
  "buildInitialTileConfig g i =
     (let initialAggType = normalizeAggregationType (tileNInitialAggregationType g i);
          category = inferFieldCategoryFromAggregationType (Some initialAggType);
          dp = (if gridDecimalPlaces g \<noteq> JNull \<and> gridDecimalPlaces g \<noteq> JUndefined
                then gridDecimalPlaces g else JNum 2);
          baseTile =
            \<lparr> index = i,
              label = orElse (tileNLabel g i) (''Tile '' @ natToString i),
              aggregateFieldApiName = tileNAggregateFieldApiName g i,
              initialAggregationType = Some initialAggType,
              filterCondition = tileNFilterCondition g i,
              decimalPlaces = dp,
              fieldCategory = category,
              aggregateType = Some initialAggType,
              isLoading = False,
              error = None,
              value' = JNull,
              recordCount = JNull,
              isCurrency = False,
              isPercent = False,
              isDate = False,
              fieldLabel = JNull,
              isAggregationMenuOpen = False,
              displayValue = JStr ''-'',
              hasRecordCount = False,
              summaryRecordLabel = None,
              summaryLabel = None,
              aggregationMenuOptions = [],
              gearMenuClass = [] \<rparr>
      in recomputeTileDerivedFields g baseTile)"

text \<open>The loop \<^verbatim>\<open>for (let index = 1; index <= maxSlots; index++)\<close>.\<close>

definition slotIndices :: "grid \<Rightarrow> nat list" where
  "slotIndices g = map nat [1..maxSlots g]"

definition initializeTilesFromConfig :: "grid \<Rightarrow> grid" where
  "initializeTilesFromConfig g = g\<lparr>tiles := map (buildInitialTileConfig g) (slotIndices g)\<rparr>"

section \<open>Shared configuration error\<close>

definition hasAnyGrandchildConfig :: "grid \<Rightarrow> bool" where
  "hasAnyGrandchildConfig g =
     (nonBlank (grandchildObjectApiName g) \<or> nonBlank (grandchildRelationshipFieldApiName g))"

definition missingProperties :: "grid \<Rightarrow> string list" where
  "missingProperties g =
     (if \<not> truthyStr (childObjectApiName g) then [''Child Object''] else [])
     @ (if \<not> truthyStr (relationshipFieldApiName g)
        then [''Relationship Field (lookup on child)''] else [])
     @ (if hasAnyGrandchildConfig g then
          (if \<not> truthyStr (grandchildObjectApiName g) then [''Grandchild Object''] else [])
          @ (if \<not> truthyStr (grandchildRelationshipFieldApiName g)
             then [''Relationship Field (lookup on grandchild)''] else [])
        else [])"

definition globalConfigError :: "grid \<Rightarrow> string option" where
  "globalConfigError g =
     (let missing = missingProperties g
      in if missing = [] then None
         else Some (''Rollup Tile Grid is not fully configured yet. Missing: ''
                    @ joinWith '', '' missing
                    @ ''. In the Lightning App Builder, set these properties (and at minimum configure ''
                    @ [CHR 34] @ ''Tile 1 Aggregate Field'' @ [CHR 34]
                    @ '') before using this component.''))"

section \<open>LoadOrchestrator\<close>

text \<open>
  The argument of \<^verbatim>\<open>getRollup\<close>. The two grandchild parameters are \<open>jsval\<close>, to tell an
  explicit \<^verbatim>\<open>null\<close> from a string.
\<close>

record request =
  reqParentId :: "string option"
  reqChildObjectApiName :: "string option"
  reqRelationshipFieldApiName :: "string option"
  reqAggregateFieldApiName :: "string option"
  reqAggregateType :: string
  reqFilterCondition :: "string option"
  reqGrandchildObjectApiName :: jsval
  reqGrandchildRelationshipFieldApiName :: jsval

text \<open>The object \<^verbatim>\<open>getRollup\<close> resolves with.\<close>

record response =
  respValue :: jsval
  respRecordCount :: jsval
  respIsCurrency :: jsval
  respIsPercent :: jsval
  respIsDate :: jsval
  respFieldLabel :: jsval
  errorMessage :: "string option"

text \<open>
  What a rejected promise carries: nothing, an object with \<^verbatim>\<open>body.message\<close> and
  \<^verbatim>\<open>message\<close>, or a string.
\<close>

datatype js_error = ErrUndefined | ErrObject "string option" "string option" | ErrString string

text \<open>
  How \<^verbatim>\<open>Promise.race([apexPromise, timeoutPromise])\<close> settles: the service resolves
  (with a response, or with a falsy value), or the race rejects, with the error of the
  service or, when the timer fires first, with \<open>timeoutError\<close>.
\<close>

datatype outcome = Resolved "response option" | Rejected js_error

definition timeoutError :: js_error where
  "timeoutError =
     ErrObject None
       (Some ''Timed out while loading rollup. Please refresh the page or contact your admin.'')"

definition optToJs :: "string option \<Rightarrow> jsval" where
  "optToJs a = (case a of None \<Rightarrow> JUndefined | Some s \<Rightarrow> JStr s)"

text \<open>
  The object literal that every branch of \<^verbatim>\<open>loadTile\<close> but the last spreads over the
  tile: \<^verbatim>\<open>{...tile, isLoading, error, value: null, recordCount: null, isCurrency: false,
  isPercent: false, isDate: false, fieldLabel: null}\<close>.
\<close>

definition clearedTile :: "bool \<Rightarrow> string option \<Rightarrow> tile \<Rightarrow> tile" where
  "clearedTile loading err t =
     t\<lparr> isLoading := loading, error := err, value' := JNull, recordCount := JNull,
        isCurrency := False, isPercent := False, isDate := False, fieldLabel := JNull \<rparr>"

text \<open>
  \<^verbatim>\<open>this.tiles = this.tiles.map((tile) => tile.index === index ?
  this.recomputeTileDerivedFields(f(tile)) : tile)\<close>.
\<close>

definition updateTile :: "grid \<Rightarrow> nat \<Rightarrow> (tile \<Rightarrow> tile) \<Rightarrow> grid" where
  "updateTile g i f =
     g\<lparr>tiles := map (\<lambda>t. if index t = i then recomputeTileDerivedFields g (f t) else t) (tiles g)\<rparr>"

text \<open>\<^verbatim>\<open>this.tiles.find((t) => t.index === index)\<close>.\<close>

definition findTile :: "grid \<Rightarrow> nat \<Rightarrow> tile option" where
  "findTile g i = find (\<lambda>t. index t = i) (tiles g)"

definition clearTileTimeout :: "grid \<Rightarrow> nat \<Rightarrow> grid" where
  "clearTileTimeout g i =
     (case tileTimeouts g i of
        None \<Rightarrow> g
      | Some tid \<Rightarrow> g\<lparr>tileTimeouts := (tileTimeouts g)(i := None)\<rparr>)"

definition startTileTimeout :: "grid \<Rightarrow> nat \<Rightarrow> grid" where
  "startTileTimeout g i =
     g\<lparr>timerSeq := Suc (timerSeq g), tileTimeouts := (tileTimeouts g)(i \<mapsto> Suc (timerSeq g))\<rparr>"

definition tileConfigMessage :: "nat \<Rightarrow> string" where
  "tileConfigMessage i =
     ''Tile '' @ natToString i @ '' is not fully configured. Set '' @ [CHR 34] @ ''Tile ''
     @ natToString i @ '' Aggregate Field'' @ [CHR 34] @ '' in the Lightning App Builder.''"

definition buildRequest :: "grid \<Rightarrow> tile \<Rightarrow> request" where
  "buildRequest g tileAfterReset =
     (let aggregateTypeToUse =
            orElse (aggregateType tileAfterReset)
              (orElse (initialAggregationType tileAfterReset) ''SUM'')
      in \<lparr> reqParentId = recordId g,
           reqChildObjectApiName = childObjectApiName g,
           reqRelationshipFieldApiName = relationshipFieldApiName g,
           reqAggregateFieldApiName = aggregateFieldApiName tileAfterReset,
           reqAggregateType = aggregateTypeToUse,
           reqFilterCondition = filterCondition tileAfterReset,
           reqGrandchildObjectApiName =
             (if isGrandchildMode g then optToJs (grandchildObjectApiName g) else JNull),
           reqGrandchildRelationshipFieldApiName =
             (if isGrandchildMode g then optToJs (grandchildRelationshipFieldApiName g)
              else JNull) \<rparr>)"

text \<open>
  \<^verbatim>\<open>loadTile(index)\<close> up to its \<^verbatim>\<open>await\<close>: the new instance state, and the request when
  \<^verbatim>\<open>getRollup\<close> is called.
\<close>

definition loadTile_start :: "grid \<Rightarrow> nat \<Rightarrow> grid \<times> request option" where
  "loadTile_start g i =
     (case globalConfigError g of
        Some msg \<Rightarrow> (updateTile g i (clearedTile False (Some msg)), None)
      | None \<Rightarrow>
          (case findTile g i of
             None \<Rightarrow> (g, None)
           | Some currentTile \<Rightarrow>
               if \<not> truthyStr (aggregateFieldApiName currentTile)
               then (updateTile g i (clearedTile False (Some (tileConfigMessage i))), None)
               else
                 (let g1 = clearTileTimeout g i;
                      g2 = updateTile g1 i (clearedTile True None);
                      g3 = startTileTimeout g2 i
                  in case findTile g3 i of
                       None \<Rightarrow> (clearTileTimeout g3 i, None)
                     | Some tileAfterReset \<Rightarrow> (g3, Some (buildRequest g3 tileAfterReset)))))"

definition rejectionMessage :: "js_error \<Rightarrow> string" where
  "rejectionMessage e =
     (case e of
        ErrUndefined \<Rightarrow> ''Unexpected error while loading rollup.''
      | ErrObject bodyMessage message \<Rightarrow>
          if truthyStr bodyMessage then orElse bodyMessage []
          else if truthyStr message then orElse message []
          else ''Unexpected error while loading rollup.''
      | ErrString s \<Rightarrow> if s \<noteq> [] then s else ''Unexpected error while loading rollup.'')"

text \<open>The object spread over the tile when the service has answered with a response.\<close>

definition adoptResponse :: "response \<Rightarrow> tile \<Rightarrow> tile" where
  "adoptResponse data t =
     (if truthyStr (errorMessage data) then
        t\<lparr> isLoading := False, error := errorMessage data, value' := JUndefined,
           recordCount := respRecordCount data,
           isCurrency := truthy (respIsCurrency data),
           isPercent := truthy (respIsPercent data),
           isDate := truthy (respIsDate data),
           fieldLabel := respFieldLabel data \<rparr>
      else
        t\<lparr> isLoading := False, error := None, value' := respValue data,
           recordCount := respRecordCount data,
           isCurrency := truthy (respIsCurrency data),
           isPercent := truthy (respIsPercent data),
           isDate := truthy (respIsDate data),
           fieldLabel := respFieldLabel data \<rparr>)"

text \<open>\<^verbatim>\<open>loadTile(index)\<close> from the settling of the race to its end, \<^verbatim>\<open>finally\<close> included.\<close>

definition loadTile_settle :: "grid \<Rightarrow> nat \<Rightarrow> outcome \<Rightarrow> grid" where
  "loadTile_settle g i out =
     (let g1 =
            (case out of
               Resolved None \<Rightarrow>
                 updateTile g i (clearedTile False (Some ''No data was returned for this rollup.''))
             | Resolved (Some data) \<Rightarrow> updateTile g i (adoptResponse data)
             | Rejected e \<Rightarrow> updateTile g i (clearedTile False (Some (rejectionMessage e))))
      in clearTileTimeout g1 i)"

text \<open>
  \<^verbatim>\<open>refreshAllTiles\<close>: \<^verbatim>\<open>forEach\<close> walks the array it was called on, and each
  \<^verbatim>\<open>loadTile\<close> runs up to its \<^verbatim>\<open>await\<close> before the next one starts.
\<close>

fun loadTiles_start :: "grid \<Rightarrow> nat list \<Rightarrow> grid \<times> request list" where
  "loadTiles_start g [] = (g, [])"
| "loadTiles_start g (i # is) =
     (let (g1, r) = loadTile_start g i;
          (g2, rs) = loadTiles_start g1 is
      in (g2, (case r of None \<Rightarrow> [] | Some q \<Rightarrow> [q]) @ rs))"

definition refreshAllTiles :: "grid \<Rightarrow> grid \<times> request list" where
  "refreshAllTiles g = loadTiles_start g (map index (tiles g))"


section \<open>Lifecycle, InstanceCoordinator and the handlers of the user interface\<close>

text \<open>
  The handlers run in a browser, where \<^verbatim>\<open>typeof window !== 'undefined'\<close> holds. An
  event is given by the part of it the handler reads: \<^verbatim>\<open>detail.sourceRecordId\<close>,
  \<^verbatim>\<open>detail.instanceId\<close> (\<open>None\<close> when the event, its detail or the field is absent or
  \<^verbatim>\<open>null\<close>), \<^verbatim>\<open>Number(dataset.index)\<close> (a natural number, \<open>0\<close> also standing for
  \<open>NaN\<close>) and \<^verbatim>\<open>dataset.value\<close>.
\<close>

text \<open>\<^verbatim>\<open>connectedCallback\<close>; the first argument and result are the counter \<^verbatim>\<open>NEXT_INSTANCE_ID\<close>.\<close>

definition connectedCallback :: "nat \<Rightarrow> grid \<Rightarrow> nat \<times> grid" where
  "connectedCallback nextId g =
     (let (nextId1, g1) =
            (if \<not> truthyStr (instanceId g)
             then (Suc nextId, g\<lparr>instanceId := Some (''rtg_'' @ natToString nextId)\<rparr>)
             else (nextId, g))
      in (nextId1, initializeTilesFromConfig g1))"

definition renderedCallback :: "grid \<Rightarrow> grid \<times> request list" where
  "renderedCallback g =
     (if initialized g then (g, [])
      else if \<not> truthyStr (recordId g) then (g, [])
      else
        (let g1 = g\<lparr>initialized := True\<rparr>
         in if globalConfigError g1 = None then refreshAllTiles g1 else (g1, [])))"

definition errorCallback :: "grid \<Rightarrow> js_error \<Rightarrow> grid" where
  "errorCallback g err =
     (let msg =
            (case globalConfigError g of
               Some m \<Rightarrow> m
             | None \<Rightarrow>
                 ''Unexpected error while rendering these rollup tiles. ''
                 @ ''Please check the configuration and try again.''
                 @ (case err of
                      ErrObject bodyMessage message \<Rightarrow>
                        if truthyStr bodyMessage then '' '' @ orElse bodyMessage []
                        else if truthyStr message then '' '' @ orElse message []
                        else []
                    | _ \<Rightarrow> []))
      in g\<lparr>tiles := map (\<lambda>t. recomputeTileDerivedFields g (t\<lparr>isLoading := False, error := Some msg\<rparr>))
                       (tiles g)\<rparr>)"

text \<open>
  \<^verbatim>\<open>handleRefreshAllClick\<close> dispatches the event \<^verbatim>\<open>st_rollup_tile_grid_refresh\<close> on the
  window; the result is its \<^verbatim>\<open>detail.sourceRecordId\<close>, \<^verbatim>\<open>this.recordId || null\<close>.
\<close>

definition handleRefreshAllClick :: "grid \<Rightarrow> string option" where
  "handleRefreshAllClick g = (if truthyStr (recordId g) then recordId g else None)"

text \<open>
  \<^verbatim>\<open>handleGlobalRefresh(event)\<close>: \<open>None\<close> when the handler returns before calling
  \<^verbatim>\<open>refreshAllTiles\<close>, otherwise what \<^verbatim>\<open>refreshAllTiles\<close> does.
\<close>

definition handleGlobalRefresh :: "grid \<Rightarrow> string option \<Rightarrow> (grid \<times> request list) option" where
  "handleGlobalRefresh g sourceRecordId =
     (if truthyStr sourceRecordId \<and> truthyStr (recordId g) \<and> sourceRecordId \<noteq> recordId g
      then None
      else Some (refreshAllTiles g))"

definition closeAllAggregationMenus :: "grid \<Rightarrow> grid" where
  "closeAllAggregationMenus g =
     (let updated =
            map (\<lambda>t. if isAggregationMenuOpen t
                      then recomputeTileDerivedFields g (t\<lparr>isAggregationMenuOpen := False\<rparr>)
                      else t)
                (tiles g);
          anyOpen = list_ex isAggregationMenuOpen (tiles g)
      in if anyOpen then g\<lparr>tiles := updated\<rparr> else g)"

definition handleGlobalCloseMenus :: "grid \<Rightarrow> string option \<Rightarrow> grid" where
  "handleGlobalCloseMenus g evInstanceId =
     (if \<not> truthyStr evInstanceId \<or> evInstanceId = instanceId g then g
      else closeAllAggregationMenus g)"

definition handleRootClick :: "grid \<Rightarrow> grid" where
  "handleRootClick g = closeAllAggregationMenus g"

text \<open>\<^verbatim>\<open>handleWindowClick\<close>: is there a template, and does it contain the target of the click.\<close>

definition handleWindowClick :: "grid \<Rightarrow> bool \<Rightarrow> bool \<Rightarrow> grid" where
  "handleWindowClick g hasTemplate inside =
     (if \<not> hasTemplate then g
      else if inside then g
      else closeAllAggregationMenus g)"

text \<open>
  \<^verbatim>\<open>handleGearClick\<close>. The event \<^verbatim>\<open>st_rollup_tile_grid_close_menus\<close> it dispatches carries
  the instance's own id, and the window delivers it to the instance's own listener too.
\<close>

definition handleGearClick :: "grid \<Rightarrow> nat \<Rightarrow> grid" where
  "handleGearClick g i =
     (if i = 0 then g
      else
        (let g1 = handleGlobalCloseMenus g (instanceId g)
         in g1\<lparr>tiles :=
                 map (\<lambda>t. if index t = i
                           then recomputeTileDerivedFields g1
                                  (t\<lparr>isAggregationMenuOpen := \<not> isAggregationMenuOpen t\<rparr>)
                           else if isAggregationMenuOpen t
                           then recomputeTileDerivedFields g1 (t\<lparr>isAggregationMenuOpen := False\<rparr>)
                           else t)
                     (tiles g1)\<rparr>))"

definition handleAggregationMenuClick ::
    "grid \<Rightarrow> nat \<Rightarrow> string option \<Rightarrow> grid \<times> request option" where
  "handleAggregationMenuClick g i newTypeRaw =
     (if i = 0 then (g, None)
      else
        (let newTypeUpper = toUpperCase (orElse newTypeRaw [])
         in if newTypeUpper = []
            then (updateTile g i (\<lambda>t. t\<lparr>isAggregationMenuOpen := False\<rparr>), None)
            else
              (let normalizedType = normalizeAggregationType (Some newTypeUpper);
                   g1 = updateTile g i
                          (\<lambda>t. t\<lparr>aggregateType := Some normalizedType,
                                  isAggregationMenuOpen := False\<rparr>)
               in loadTile_start g1 i)))"

subsection \<open>The instance as a state machine\<close>

datatype event =
    GearClick nat
  | AggregationMenuClick nat "string option"
  | RootClick
  | WindowClick bool bool
  | GlobalCloseMenus "string option"
  | GlobalRefresh "string option"
  | RefreshAllClick
  | Rendered
  | ErrorCallback js_error
  | Settle nat outcome

fun step :: "grid \<Rightarrow> event \<Rightarrow> grid" where
  "step g (GearClick i) = handleGearClick g i"
| "step g (AggregationMenuClick i v) = fst (handleAggregationMenuClick g i v)"
| "step g RootClick = handleRootClick g"
| "step g (WindowClick hasTemplate inside) = handleWindowClick g hasTemplate inside"
| "step g (GlobalCloseMenus iid) = handleGlobalCloseMenus g iid"
| "step g (GlobalRefresh src) =
     (case handleGlobalRefresh g src of None \<Rightarrow> g | Some (g1, rs) \<Rightarrow> g1)"
| "step g RefreshAllClick =
     (case handleGlobalRefresh g (handleRefreshAllClick g) of None \<Rightarrow> g | Some (g1, rs) \<Rightarrow> g1)"
| "step g Rendered = fst (renderedCallback g)"
| "step g (ErrorCallback e) = errorCallback g e"
| "step g (Settle i out) = loadTile_settle g i out"

definition run :: "grid \<Rightarrow> event list \<Rightarrow> grid" where
  "run g evs = foldl step g evs"

definition openMenus :: "grid \<Rightarrow> tile list" where
  "openMenus g = filter isAggregationMenuOpen (tiles g)"

text \<open>Which events are clicks on a gear.\<close>

fun isGearClick :: "event \<Rightarrow> bool" where
  "isGearClick (GearClick i) = True"
| "isGearClick _ = False"


section \<open>Sample instances\<close>

text \<open>
  A grid of one row and three columns on the record \<^verbatim>\<open>001A\<close>, rolling up
  \<^verbatim>\<open>Amount__c\<close> of \<^verbatim>\<open>sitetracker__Project__c\<close>; the third tile has no aggregate field.
\<close>

definition sampleConfig :: grid where
  "sampleConfig =
     \<lparr> recordId = Some ''001A'',
       rows = JNum 1,
       columns = JStr ''3'',
       childObjectApiName = Some ''sitetracker__Project__c'',
       relationshipFieldApiName = Some ''Account__c'',
       grandchildObjectApiName = None,
       grandchildRelationshipFieldApiName = None,
       gridDecimalPlaces = JNum 2,
       tileNLabel = (\<lambda>n. None),
       tileNAggregateFieldApiName = (\<lambda>n. if n = 3 then None else Some ''Amount__c''),
       tileNInitialAggregationType = (\<lambda>n. if n = 2 then Some ''count'' else Some ''sum''),
       tileNFilterCondition = (\<lambda>n. if n = 1 then Some ''Status__c = 1'' else None),
       tiles = [],
       initialized = False,
       tileTimeouts = (\<lambda>n. None),
       timerSeq = 0,
       instanceId = None \<rparr>"

definition sampleGrid :: grid where
  "sampleGrid = snd (connectedCallback 1 sampleConfig)"

text \<open>The same grid with no child object configured.\<close>

definition sampleGridNoChild :: grid where
  "sampleGridNoChild = snd (connectedCallback 1 (sampleConfig\<lparr>childObjectApiName := None\<rparr>))"

text \<open>The same grid in grandchild mode.\<close>

definition sampleGridGrandchild :: grid where
  "sampleGridGrandchild =
     snd (connectedCallback 1
            (sampleConfig\<lparr>grandchildObjectApiName := Some ''Task__c'',
                          grandchildRelationshipFieldApiName := Some ''Project__c''\<rparr>))"

text \<open>The same grid on a page without a record.\<close>

definition sampleGridUnbound :: grid where
  "sampleGridUnbound = snd (connectedCallback 2 (sampleConfig\<lparr>recordId := None\<rparr>))"

text \<open>The same grid on another record.\<close>

definition sampleGridOther :: grid where
  "sampleGridOther = snd (connectedCallback 2 (sampleConfig\<lparr>recordId := Some ''001B''\<rparr>))"

text \<open>The sample grid while its first tile is loading.\<close>

definition sampleLoading :: grid where
  "sampleLoading = fst (loadTile_start sampleGrid 1)"

text \<open>The response of scenario C: the value 1234.5, flagged as currency.\<close>

definition sampleResponse :: response where
  "sampleResponse =
     \<lparr> respValue = JNum (2469 / 2),
       respRecordCount = JNum 2,
       respIsCurrency = JBool True,
       respIsPercent = JBool False,
       respIsDate = JBool False,
       respFieldLabel = JStr ''Amount'',
       errorMessage = None \<rparr>"

text \<open>A business error that still carries metadata.\<close>

definition sampleErrorResponse :: response where
  "sampleErrorResponse =
     \<lparr> respValue = JNum 7,
       respRecordCount = JNum 2,
       respIsCurrency = JBool True,
       respIsPercent = JBool False,
       respIsDate = JBool False,
       respFieldLabel = JStr ''Amount'',
       errorMessage = Some ''Invalid field'' \<rparr>"





text \<open>The sample configuration with a label set for a tile beyond the three slots.\<close>

definition sampleConfigBeyond :: grid where
  "sampleConfigBeyond =
     sampleConfig\<lparr>tileNLabel := (\<lambda>n. if n = 4 then Some ''Beyond the grid'' else None)\<rparr>"


section \<open>Properties of the string functions\<close>

lemma lower_shift_mod: "97 \<le> (n::nat) \<Longrightarrow> n \<le> 122 \<Longrightarrow> (n - 32) mod 256 = n - 32"
  by (rule mod_less) arith

lemma upper_shift_mod: "65 \<le> (n::nat) \<Longrightarrow> n \<le> 90 \<Longrightarrow> (n + 32) mod 256 = n + 32"
  by (rule mod_less) arith

lemma of_char_toUpperChar:
  "(of_char (toUpperChar c) :: nat) =
     (if 97 \<le> (of_char c :: nat) \<and> (of_char c :: nat) \<le> 122 then of_char c - 32 else of_char c)"
  by (simp add: toUpperChar_def Let_def lower_shift_mod)

lemma of_char_toLowerChar:
  "(of_char (toLowerChar c) :: nat) =
     (if 65 \<le> (of_char c :: nat) \<and> (of_char c :: nat) \<le> 90 then of_char c + 32 else of_char c)"
  by (simp add: toLowerChar_def Let_def upper_shift_mod)

lemma toUpperChar_other:
  "\<not> (97 \<le> (of_char c :: nat) \<and> (of_char c :: nat) \<le> 122) \<Longrightarrow> toUpperChar c = c"
  by (auto simp add: toUpperChar_def Let_def)

lemma toLowerChar_other:
  "\<not> (65 \<le> (of_char c :: nat) \<and> (of_char c :: nat) \<le> 90) \<Longrightarrow> toLowerChar c = c"
  by (auto simp add: toLowerChar_def Let_def)

lemma toUpperChar_idem: "toUpperChar (toUpperChar c) = toUpperChar c"
proof -
  have "\<not> (97 \<le> (of_char (toUpperChar c) :: nat) \<and> (of_char (toUpperChar c) :: nat) \<le> 122)"
    unfolding of_char_toUpperChar by arith
  then show ?thesis
    by (rule toUpperChar_other)
qed

lemma isWhiteSpace_toUpperChar: "isWhiteSpace (toUpperChar c) = isWhiteSpace c"
proof (cases "97 \<le> (of_char c :: nat) \<and> (of_char c :: nat) \<le> 122")
  case True
  then have "(of_char (toUpperChar c) :: nat) = of_char c - 32"
    by (simp add: of_char_toUpperChar)
  then have "\<not> isWhiteSpace (toUpperChar c)"
    using True unfolding isWhiteSpace_def by auto
  moreover have "\<not> isWhiteSpace c"
    using True unfolding isWhiteSpace_def by auto
  ultimately show ?thesis by simp
next
  case False
  then show ?thesis by (simp add: toUpperChar_other)
qed

lemma dropWhile_ws_upper:
  "dropWhile isWhiteSpace (map toUpperChar s) = map toUpperChar (dropWhile isWhiteSpace s)"
proof -
  have "isWhiteSpace \<circ> toUpperChar = isWhiteSpace"
    by (rule ext) (simp add: isWhiteSpace_toUpperChar)
  then show ?thesis by (simp add: dropWhile_map)
qed

lemma trim_toUpperCase: "trim (toUpperCase s) = toUpperCase (trim s)"
  by (simp add: trim_def toUpperCase_def dropWhile_ws_upper rev_map)

lemma dropWhile_fix: "xs = [] \<or> \<not> P (hd xs) \<Longrightarrow> dropWhile P xs = xs"
  by (cases xs) auto

lemma dropWhile_hd: "dropWhile P xs = [] \<or> \<not> P (hd (dropWhile P xs))"
  using hd_dropWhile [of P xs] by blast

lemma trim_idem: "trim (trim s) = trim s"
proof -
  define t where "t = dropWhile isWhiteSpace s"
  define u where "u = dropWhile isWhiteSpace (rev t)"
  have u_fix: "dropWhile isWhiteSpace u = u"
    unfolding u_def by (rule dropWhile_fix) (rule dropWhile_hd)
  have t_head: "t = [] \<or> \<not> isWhiteSpace (hd t)"
    unfolding t_def by (rule dropWhile_hd)
  have "\<exists>ws. rev t = ws @ u"
    unfolding u_def by (metis takeWhile_dropWhile_id)
  then obtain ws where "rev t = ws @ u" by blast
  then have t_eq: "t = rev u @ rev ws"
    by (metis rev_append rev_rev_ident)
  have "rev u = [] \<or> \<not> isWhiteSpace (hd (rev u))"
  proof (cases "rev u = []")
    case True
    then show ?thesis by simp
  next
    case False
    then have "hd (rev u) = hd t" using t_eq by simp
    moreover have "t \<noteq> []" using False t_eq by simp
    ultimately show ?thesis using t_head by simp
  qed
  then have "dropWhile isWhiteSpace (rev u) = rev u"
    by (rule dropWhile_fix)
  then have "rev (dropWhile isWhiteSpace (rev (dropWhile isWhiteSpace (rev u)))) = rev u"
    using u_fix by simp
  then show ?thesis
    by (simp add: trim_def t_def u_def)
qed

lemma toUpperCase_idem: "toUpperCase (toUpperCase s) = toUpperCase s"
  by (simp add: toUpperCase_def toUpperChar_idem)


lemma sameUpToCase_toLowerCase: "sameUpToCase (toLowerCase s) s"
proof -
  have "toUpperChar (toLowerChar c) = toUpperChar c" for c
  proof (cases "65 \<le> (of_char c :: nat) \<and> (of_char c :: nat) \<le> 90")
    case True
    then have l: "(of_char (toLowerChar c) :: nat) = of_char c + 32"
      by (simp add: of_char_toLowerChar)
    have "toUpperChar (toLowerChar c) = char_of ((of_char c :: nat) + 32 - 32)"
      using True by (subst toUpperChar_def) (simp add: Let_def l)
    also have "\<dots> = c" by simp
    also have "c = toUpperChar c"
      using True by (simp add: toUpperChar_def Let_def)
    finally show ?thesis .
  next
    case False
    then show ?thesis by (simp add: toLowerChar_other)
  qed
  then show ?thesis
    by (simp add: sameUpToCase_def toLowerCase_def list_all2_map1 list_all2_same)
qed

section \<open>AggregationTypeCatalog: normalization\<close>

lemma normalize_AVERAGE: "normalizeAggTypeValue (Some ''AVERAGE'') = Some ''AVERAGE''"
  by code_simp

lemma normalize_Some:
  "normalizeAggTypeValue (Some s) =
     (if toUpperCase (trim s) = [] then None
      else if toUpperCase (trim s) = ''AVG'' then Some ''AVERAGE''
      else Some (toUpperCase (trim s)))"
  by (simp add: normalizeAggTypeValue_def Let_def)

lemma upper_trim_fix: "toUpperCase (trim (toUpperCase (trim s))) = toUpperCase (trim s)"
  by (simp add: trim_toUpperCase trim_idem toUpperCase_idem)

lemma normalize_idem:
  "normalizeAggTypeValue (normalizeAggTypeValue raw) = normalizeAggTypeValue raw"
proof (cases raw)
  case None
  then show ?thesis by (simp add: normalizeAggTypeValue_def)
next
  case (Some s)
  show ?thesis
  proof (cases "toUpperCase (trim s) = [] \<or> toUpperCase (trim s) = ''AVG''")
    case True
    then show ?thesis
      using Some normalize_AVERAGE by (auto simp add: normalize_Some normalizeAggTypeValue_def)
  next
    case False
    then have "normalizeAggTypeValue raw = Some (toUpperCase (trim s))"
      using Some by (simp add: normalize_Some)
    moreover have "normalizeAggTypeValue (Some (toUpperCase (trim s))) = Some (toUpperCase (trim s))"
      using False by (simp add: normalize_Some upper_trim_fix)
    ultimately show ?thesis by simp
  qed
qed




section \<open>TileViewModel: what the recomputation writes\<close>

lemma recompute_frame:
  "index (recomputeTileDerivedFields g t) = index t"
  "label (recomputeTileDerivedFields g t) = label t"
  "aggregateFieldApiName (recomputeTileDerivedFields g t) = aggregateFieldApiName t"
  "initialAggregationType (recomputeTileDerivedFields g t) = initialAggregationType t"
  "filterCondition (recomputeTileDerivedFields g t) = filterCondition t"
  "decimalPlaces (recomputeTileDerivedFields g t) = decimalPlaces t"
  "isLoading (recomputeTileDerivedFields g t) = isLoading t"
  "error (recomputeTileDerivedFields g t) = error t"
  "value' (recomputeTileDerivedFields g t) = value' t"
  "recordCount (recomputeTileDerivedFields g t) = recordCount t"
  "isCurrency (recomputeTileDerivedFields g t) = isCurrency t"
  "isPercent (recomputeTileDerivedFields g t) = isPercent t"
  "isDate (recomputeTileDerivedFields g t) = isDate t"
  "fieldLabel (recomputeTileDerivedFields g t) = fieldLabel t"
  "isAggregationMenuOpen (recomputeTileDerivedFields g t) = isAggregationMenuOpen t"
  by (simp_all add: recomputeTileDerivedFields_def Let_def)

lemma recompute_written:
  "aggregateType (recomputeTileDerivedFields g t) = Some (currentAggregateType t)"
  "fieldCategory (recomputeTileDerivedFields g t) = resolveFieldCategory t"
  "displayValue (recomputeTileDerivedFields g t) = computeDisplayValue t (currentAggregateType t)"
  "hasRecordCount (recomputeTileDerivedFields g t) = (recordCount t \<noteq> JUndefined \<and> recordCount t \<noteq> JNull)"
  "summaryRecordLabel (recomputeTileDerivedFields g t) = computeSummaryRecordLabel g t"
  "gearMenuClass (recomputeTileDerivedFields g t) = computeGearMenuClass t"
  by (simp_all add: recomputeTileDerivedFields_def Let_def)

text \<open>
  Claim C10. \<^verbatim>\<open>recomputeTileDerivedFields\<close> leaves the configuration and the runtime
  state of the tile as they are: index, label, aggregateFieldApiName,
  initialAggregationType, filterCondition, decimalPlaces, isLoading, error, value,
  recordCount, isCurrency, isPercent, isDate, fieldLabel and isAggregationMenuOpen are the
  same in the input and in the output. It writes aggregateType (normalized), fieldCategory
  (resolved) and the derived view fields, and nothing else: the output is the input
  with those eight fields updated.
\<close>

theorem recomputeTileDerivedFields_frame:
  "index (recomputeTileDerivedFields g t) = index t
   \<and> label (recomputeTileDerivedFields g t) = label t
   \<and> aggregateFieldApiName (recomputeTileDerivedFields g t) = aggregateFieldApiName t
   \<and> initialAggregationType (recomputeTileDerivedFields g t) = initialAggregationType t
   \<and> filterCondition (recomputeTileDerivedFields g t) = filterCondition t
   \<and> decimalPlaces (recomputeTileDerivedFields g t) = decimalPlaces t
   \<and> isLoading (recomputeTileDerivedFields g t) = isLoading t
   \<and> error (recomputeTileDerivedFields g t) = error t
   \<and> value' (recomputeTileDerivedFields g t) = value' t
   \<and> recordCount (recomputeTileDerivedFields g t) = recordCount t
   \<and> isCurrency (recomputeTileDerivedFields g t) = isCurrency t
   \<and> isPercent (recomputeTileDerivedFields g t) = isPercent t
   \<and> isDate (recomputeTileDerivedFields g t) = isDate t
   \<and> fieldLabel (recomputeTileDerivedFields g t) = fieldLabel t
   \<and> isAggregationMenuOpen (recomputeTileDerivedFields g t) = isAggregationMenuOpen t
   \<and> aggregateType (recomputeTileDerivedFields g t) = Some (currentAggregateType t)
   \<and> fieldCategory (recomputeTileDerivedFields g t) = resolveFieldCategory t
   \<and> recomputeTileDerivedFields g t =
       t\<lparr> aggregateType := aggregateType (recomputeTileDerivedFields g t),
          fieldCategory := fieldCategory (recomputeTileDerivedFields g t),
          displayValue := displayValue (recomputeTileDerivedFields g t),
          hasRecordCount := hasRecordCount (recomputeTileDerivedFields g t),
          summaryRecordLabel := summaryRecordLabel (recomputeTileDerivedFields g t),
          summaryLabel := summaryLabel (recomputeTileDerivedFields g t),
          aggregationMenuOptions := aggregationMenuOptions (recomputeTileDerivedFields g t),
          gearMenuClass := gearMenuClass (recomputeTileDerivedFields g t) \<rparr>"
  by (simp add: recomputeTileDerivedFields_def Let_def)

section \<open>TileViewModel: the aggregate type and the display value\<close>

lemma normalize_SUM: "normalizeAggTypeValue (Some ''SUM'') = Some ''SUM''"
  by code_simp

lemma currentAggregateType_normalized:
  "normalizeAggTypeValue (Some (currentAggregateType t)) = Some (currentAggregateType t)"
proof -
  define x where "x = orElse (aggregateType t) (orElse (initialAggregationType t) ''SUM'')"
  show ?thesis
  proof (cases "normalizeAggTypeValue (Some x)")
    case None
    then have "currentAggregateType t = ''SUM''"
      by (simp add: currentAggregateType_def x_def)
    then show ?thesis by (simp add: normalize_SUM)
  next
    case (Some a)
    then have c: "currentAggregateType t = a"
      by (simp add: currentAggregateType_def x_def)
    have "normalizeAggTypeValue (normalizeAggTypeValue (Some x)) = normalizeAggTypeValue (Some x)"
      by (rule normalize_idem)
    then show ?thesis using Some c by simp
  qed
qed

lemma currentAggregateType_nonempty: "currentAggregateType t \<noteq> []"
  using currentAggregateType_normalized [of t]
  by (auto simp add: normalize_Some toUpperCase_def split: if_splits)

lemma currentAggregateType_recompute:
  "currentAggregateType (recomputeTileDerivedFields g t) = currentAggregateType t"
proof -
  have "currentAggregateType (recomputeTileDerivedFields g t)
        = (case normalizeAggTypeValue (Some (currentAggregateType t)) of
             None \<Rightarrow> ''SUM'' | Some a \<Rightarrow> a)"
    using currentAggregateType_nonempty [of t]
    by (simp add: currentAggregateType_def [of "recomputeTileDerivedFields g t"]
          recompute_written orElse_def)
  then show ?thesis by (simp add: currentAggregateType_normalized)
qed




section \<open>LoadOrchestrator: settling a load\<close>

lemma tiles_updateTile:
  "tiles (updateTile g i f) =
     map (\<lambda>t. if index t = i then recomputeTileDerivedFields g (f t) else t) (tiles g)"
  by (simp add: updateTile_def)

lemma tiles_clearTileTimeout: "tiles (clearTileTimeout g i) = tiles g"
  by (simp add: clearTileTimeout_def split: option.splits)

lemma tiles_startTileTimeout: "tiles (startTileTimeout g i) = tiles g"
  by (simp add: startTileTimeout_def)

lemma find_map_index:
  assumes "\<And>t. index (h t) = index t"
  shows "find (\<lambda>t. index t = i) (map h xs) = map_option h (find (\<lambda>t. index t = i) xs)"
  by (induction xs) (simp_all add: assms)

lemma findTile_updateTile:
  assumes "\<And>t. index (f t) = index t"
  shows "findTile (updateTile g i f) i =
           map_option (\<lambda>t. recomputeTileDerivedFields g (f t)) (findTile g i)"
proof -
  have "find (\<lambda>t. index t = i)
          (map (\<lambda>t. if index t = i then recomputeTileDerivedFields g (f t) else t) xs)
        = map_option (\<lambda>t. recomputeTileDerivedFields g (f t)) (find (\<lambda>t. index t = i) xs)" for xs
    by (induction xs) (simp_all add: assms recompute_frame)
  then show ?thesis by (simp add: findTile_def tiles_updateTile)
qed

lemma findTile_clearTileTimeout: "findTile (clearTileTimeout g i) j = findTile g j"
  by (simp add: findTile_def tiles_clearTileTimeout)

lemma index_adoptResponse: "index (adoptResponse data t) = index t"
  by (simp add: adoptResponse_def)

lemma index_clearedTile: "index (clearedTile l e t) = index t"
  by (simp add: clearedTile_def)

lemma findTile_settle_response:
  "findTile (loadTile_settle g i (Resolved (Some data))) i =
     map_option (\<lambda>t. recomputeTileDerivedFields g (adoptResponse data t)) (findTile g i)"
  by (simp add: loadTile_settle_def findTile_clearTileTimeout findTile_updateTile index_adoptResponse)

lemma truncRat_two: "truncRat 2 = 2"
  by (simp add: truncRat_def)

lemma currentAggregateType_adoptResponse:
  "currentAggregateType (adoptResponse data t) = currentAggregateType t"
  by (simp add: currentAggregateType_def adoptResponse_def)

lemma format_1234_5: "NumberFormat_format 0 2 (2469 / 2) = ''1,234.5''"
  by code_simp

text \<open>
  Claim C4. When the service resolves with a response whose \<^verbatim>\<open>errorMessage\<close> is not
  empty, the tile ends in the error state with exactly that message, takes recordCount,
  isCurrency, isPercent, isDate and fieldLabel from the response, and shows no value: its
  value is \<^verbatim>\<open>undefined\<close> and its displayValue is \<^verbatim>\<open>-\<close>.
\<close>

theorem business_error_adopts_metadata:
  assumes "findTile g i = Some t" and "errorMessage data = Some msg" and "msg \<noteq> []"
  shows "\<exists>t'. findTile (loadTile_settle g i (Resolved (Some data))) i = Some t'
           \<and> error t' = Some msg \<and> \<not> isLoading t'
           \<and> recordCount t' = respRecordCount data
           \<and> isCurrency t' = truthy (respIsCurrency data)
           \<and> isPercent t' = truthy (respIsPercent data)
           \<and> isDate t' = truthy (respIsDate data)
           \<and> fieldLabel t' = respFieldLabel data
           \<and> value' t' = JUndefined
           \<and> displayValue t' = JStr ''-''"
proof -
  let ?t = "recomputeTileDerivedFields g (adoptResponse data t)"
  have "findTile (loadTile_settle g i (Resolved (Some data))) i = Some ?t"
    using assms(1) by (simp add: findTile_settle_response)
  moreover have "error ?t = Some msg" "\<not> isLoading ?t" "recordCount ?t = respRecordCount data"
    "isCurrency ?t = truthy (respIsCurrency data)" "isPercent ?t = truthy (respIsPercent data)"
    "isDate ?t = truthy (respIsDate data)" "fieldLabel ?t = respFieldLabel data"
    "value' ?t = JUndefined"
    using assms(2,3) by (simp_all add: recompute_frame adoptResponse_def)
  moreover have "displayValue ?t = JStr ''-''"
    using assms(2,3)
    by (simp add: recompute_written computeDisplayValue_def isEmptyValue_def adoptResponse_def)
  ultimately show ?thesis by blast
qed

theorem business_error_adopts_metadata_witness:
  "\<exists>t'. findTile (loadTile_settle sampleLoading 1 (Resolved (Some sampleErrorResponse))) 1 = Some t'
        \<and> error t' = Some ''Invalid field'' \<and> recordCount t' = JNum 2 \<and> isCurrency t'
        \<and> displayValue t' = JStr ''-''"
proof -
  have h1: "findTile sampleLoading 1 = Some (tiles sampleLoading ! 0)" by code_simp
  have h2: "errorMessage sampleErrorResponse = Some ''Invalid field''" by code_simp
  have h3: "''Invalid field'' \<noteq> []" by simp
  have m: "respRecordCount sampleErrorResponse = JNum 2" "truthy (respIsCurrency sampleErrorResponse)"
    by code_simp+
  from business_error_adopts_metadata [OF h1 h2 h3] m show ?thesis by auto
qed

text \<open>
  Claim C1, as the specification states it: with the value 1234.5, isCurrency and two
  decimal places the displayValue would be \<^verbatim>\<open>$1,234.50\<close>. The formatter is built
  with \<^verbatim>\<open>minimumFractionDigits: 0\<close>, so the zero at the end is not printed and the
  displayValue is \<^verbatim>\<open>$1,234.5\<close>.
\<close>

theorem scenario_C_display_value_counterexample:
  "respValue sampleResponse = JNum (2469 / 2)
   \<and> truthy (respIsCurrency sampleResponse)
   \<and> errorMessage sampleResponse = None
   \<and> decimalPlaces (tiles sampleLoading ! 0) = JNum 2
   \<and> displayValue (tiles (loadTile_settle sampleLoading 1 (Resolved (Some sampleResponse))) ! 0)
       = JStr ''$1,234.5''
   \<and> displayValue (tiles (loadTile_settle sampleLoading 1 (Resolved (Some sampleResponse))) ! 0)
       \<noteq> JStr ''$1,234.50''"
  by code_simp

text \<open>
  Claim C1, amended. For a tile with a numeric aggregate and two decimal places whose load
  resolves without an error message and with a number \<open>v\<close>, the displayValue is \<open>v\<close>
  formatted with grouping and at most two fraction digits (no padding with zeros),
  with \<^verbatim>\<open>$\<close> in front when isCurrency, otherwise with \<^verbatim>\<open>%\<close> behind when isPercent,
  never both; for 1234.5 and isCurrency it is \<^verbatim>\<open>$1,234.5\<close>.
\<close>

theorem settled_currency_display_value:
  assumes "findTile g i = Some t"
    and "\<not> truthyStr (errorMessage data)"
    and "respValue data = JNum v"
    and "decimalPlaces t = JNum 2"
    and "currentAggregateType t \<in> set NUMERIC_TYPES"
    and "\<not> (truthy (respIsDate data) \<and> currentAggregateType t \<in> {''MIN'', ''MAX''})"
  shows "\<exists>t'. findTile (loadTile_settle g i (Resolved (Some data))) i = Some t'
           \<and> displayValue t' =
               JStr (if truthy (respIsCurrency data) then ''$'' @ NumberFormat_format 0 2 v
                     else if truthy (respIsPercent data) then NumberFormat_format 0 2 v @ ''%''
                     else NumberFormat_format 0 2 v)
           \<and> (v = 2469 / 2 \<and> truthy (respIsCurrency data) \<longrightarrow> displayValue t' = JStr ''$1,234.5'')"
proof -
  let ?a = "adoptResponse data t"
  let ?t = "recomputeTileDerivedFields g ?a"
  have f: "findTile (loadTile_settle g i (Resolved (Some data))) i = Some ?t"
    using assms(1) by (simp add: findTile_settle_response)
  have a: "value' ?a = JNum v" "decimalPlaces ?a = JNum 2" "isDate ?a = truthy (respIsDate data)"
    "isCurrency ?a = truthy (respIsCurrency data)" "isPercent ?a = truthy (respIsPercent data)"
    using assms(2,3,4) by (simp_all add: adoptResponse_def)
  have n: "isNumericAggregate ?a (currentAggregateType ?a)"
    using assms(5,6) a(3)
    by (simp add: isNumericAggregate_def isDateAggregate_def currentAggregateType_adoptResponse)
  have e: "\<not> isEmptyValue (value' ?a)"
    by (simp add: a isEmptyValue_def)
  have d: "displayValue ?t = numericDisplayValue ?a"
    using n e by (simp add: recompute_written computeDisplayValue_def)
  have nd: "numericDisplayValue ?a =
          JStr (if truthy (respIsCurrency data) then ''$'' @ NumberFormat_format 0 2 v
                else if truthy (respIsPercent data) then NumberFormat_format 0 2 v @ ''%''
                else NumberFormat_format 0 2 v)"
    by (simp add: numericDisplayValue_def a truncRat_two NumberFormat_maxFraction_def Let_def)
  have c3: "displayValue ?t = JStr ''$1,234.5''"
    if v: "v = 2469 / 2" and c: "truthy (respIsCurrency data)"
  proof -
    have "numericDisplayValue ?a = JStr (''$'' @ NumberFormat_format 0 2 v)"
      using nd c by (simp only: if_True)
    then have "numericDisplayValue ?a = JStr (''$'' @ ''1,234.5'')"
      by (simp only: v format_1234_5)
    then show ?thesis using d by simp
  qed
  have dd: "displayValue ?t =
          JStr (if truthy (respIsCurrency data) then ''$'' @ NumberFormat_format 0 2 v
                else if truthy (respIsPercent data) then NumberFormat_format 0 2 v @ ''%''
                else NumberFormat_format 0 2 v)"
    using d nd by (simp only:)
  show ?thesis
  proof (intro exI conjI impI)
    show "findTile (loadTile_settle g i (Resolved (Some data))) i = Some ?t" by (rule f)
    show "displayValue ?t =
          JStr (if truthy (respIsCurrency data) then ''$'' @ NumberFormat_format 0 2 v
                else if truthy (respIsPercent data) then NumberFormat_format 0 2 v @ ''%''
                else NumberFormat_format 0 2 v)" by (rule dd)
    assume h: "v = 2469 / 2 \<and> truthy (respIsCurrency data)"
    show "displayValue ?t = JStr ''$1,234.5''"
      by (rule c3) (simp_all only: h)
  qed
qed


theorem settled_currency_display_value_witness:
  "\<exists>t'. findTile (loadTile_settle sampleLoading 1 (Resolved (Some sampleResponse))) 1 = Some t'
        \<and> displayValue t' = JStr ''$1,234.5''"
proof -
  have h1: "findTile sampleLoading 1 = Some (tiles sampleLoading ! 0)" by code_simp
  have h2: "\<not> truthyStr (errorMessage sampleResponse)" by code_simp
  have h3: "respValue sampleResponse = JNum (2469 / 2)" by code_simp
  have h4: "decimalPlaces (tiles sampleLoading ! 0) = JNum 2" by code_simp
  have h5: "currentAggregateType (tiles sampleLoading ! 0) \<in> set NUMERIC_TYPES" by code_simp
  have h6: "\<not> (truthy (respIsDate sampleResponse)
               \<and> currentAggregateType (tiles sampleLoading ! 0) \<in> {''MIN'', ''MAX''})" by code_simp
  have c: "truthy (respIsCurrency sampleResponse)" by code_simp
  from settled_currency_display_value [OF h1 h2 h3 h4 h5 h6] c show ?thesis by auto
qed

end
